theory Spec2Isabelle
  imports Main "HOL-Library.Multiset" "HOL-Library.AList"
begin

section \<open>Tables as the scrapers hold them\<close>

text \<open>
  The scrapers build their tables with pandas. A table cell in memory is either a
  Python string or the missing value \<open>NaN\<close>; \<open>drop_duplicates\<close> treats two missing
  values as equal and a missing value as different from every string, which is the
  equality of this datatype. A Python string is given by its UTF-8 bytes. The type
  inference of \<open>read_csv\<close> (a column of numbers or booleans) is not modelled: every
  cell that is present is text, so the theorems that load a table are stated for
  explicit tables whose fields pandas loads and writes as the model does.
\<close>

datatype cell = NaN | Str string

record dataframe =
  columns :: "string list"
  rows :: "cell list list"

text \<open>A Python dict, in insertion order.\<close>

type_synonym pydict = "(string \<times> cell) list"

definition dict_get :: "pydict \<Rightarrow> string \<Rightarrow> cell" where
  "dict_get d c = (case map_of d c of None \<Rightarrow> NaN | Some v \<Rightarrow> v)"

text \<open>
  Keeping the first occurrence of every key, in first-seen order: the loop behind
  \<open>list(dict.fromkeys(xs))\<close> and behind \<open>drop_duplicates(keep='first')\<close>.
  \<open>seen\<close> holds the keys met so far.
\<close>

fun keep_first :: "('a \<Rightarrow> 'k) \<Rightarrow> 'k list \<Rightarrow> 'a list \<Rightarrow> 'a list" where
  "keep_first f seen [] = []"
| "keep_first f seen (x # xs) =
     (if f x \<in> set seen then keep_first f seen xs
      else x # keep_first f (f x # seen) xs)"

definition dict_fromkeys :: "'a list \<Rightarrow> 'a list" where
  "dict_fromkeys xs = keep_first (\<lambda>x. x) [] xs"

text \<open>\<open>pd.DataFrame(records)\<close> for a list of dicts: the columns are the keys in
  first-seen order, a key a record lacks is \<open>NaN\<close>.\<close>

definition DataFrame :: "pydict list \<Rightarrow> dataframe" where
  "DataFrame ds =
     (let cols = dict_fromkeys (concat (map (map fst) ds))
      in \<lparr>columns = cols, rows = map (\<lambda>d. map (dict_get d) cols) ds\<rparr>)"

text \<open>The value of row \<open>r\<close> in column \<open>c\<close> of a frame with columns \<open>cols\<close>.\<close>

definition row_get :: "string list \<Rightarrow> cell list \<Rightarrow> string \<Rightarrow> cell" where
  "row_get cols r c = dict_get (zip cols r) c"

text \<open>\<open>df[c] = v\<close> with a scalar \<open>v\<close>: overwrite the column, or append it.\<close>

definition set_column :: "string \<Rightarrow> cell \<Rightarrow> dataframe \<Rightarrow> dataframe" where
  "set_column c v df =
     (if c \<in> set (columns df)
      then df\<lparr>rows := map (\<lambda>r. map (\<lambda>k. if k = c then v else row_get (columns df) r k)
                                  (columns df)) (rows df)\<rparr>
      else \<lparr>columns = columns df @ [c], rows = map (\<lambda>r. r @ [v]) (rows df)\<rparr>)"

definition reindex :: "string list \<Rightarrow> dataframe \<Rightarrow> cell list list" where
  "reindex cols df = map (\<lambda>r. map (row_get (columns df) r) cols) (rows df)"

text \<open>\<open>pd.concat([a, b], ignore_index=True)\<close>: the union of the columns, those of
  \<open>a\<close> first; the rows of \<open>a\<close> before the rows of \<open>b\<close>; \<open>NaN\<close> where a frame lacks a
  column.\<close>

definition concat_frames :: "dataframe \<Rightarrow> dataframe \<Rightarrow> dataframe" where
  "concat_frames a b =
     (let cols = dict_fromkeys (columns a @ columns b)
      in \<lparr>columns = cols, rows = reindex cols a @ reindex cols b\<rparr>)"

definition row_key :: "string list \<Rightarrow> string list \<Rightarrow> cell list \<Rightarrow> cell list" where
  "row_key cols key_cols r = map (row_get cols r) key_cols"

text \<open>\<open>df.drop_duplicates(subset=..., keep='first')\<close>; \<open>None\<close> is the \<open>KeyError\<close>
  pandas raises when a column of the subset is not in the frame.\<close>

definition drop_duplicates :: "string list \<Rightarrow> dataframe \<Rightarrow> dataframe option" where
  "drop_duplicates key_cols df =
     (if set key_cols \<subseteq> set (columns df)
      then Some (df\<lparr>rows := keep_first (row_key (columns df) key_cols) [] (rows df)\<rparr>)
      else None)"

section \<open>Files\<close>

text \<open>
  A file is either text that \<open>pd.read_csv\<close> parses, given by its header and its
  records as written, or bytes it cannot parse. The file system is a map from
  paths to files. It holds no directories: the directory of a file that exists
  exists, and writing a file does not fail.
\<close>

datatype disk_file = Csv "string list" "string list list" | Garbage string

type_synonym fs = "string \<rightharpoonup> disk_file"

text \<open>The strings \<open>read_csv\<close> reads as missing by default (\<open>keep_default_na=True\<close>
  and no \<open>na_values\<close>, as every call in the scrapers has it).\<close>

definition na_values :: "string list" where
  "na_values = ['''', ''#N/A'', ''#N/A N/A'', ''#NA'', ''-1.#IND'', ''-1.#QNAN'',
     ''-NaN'', ''-nan'', ''1.#IND'', ''1.#QNAN'', ''<NA>'', ''N/A'', ''NA'', ''NULL'',
     ''NaN'', ''None'', ''n/a'', ''nan'', ''null'']"

definition parse_cell :: "string \<Rightarrow> cell" where
  "parse_cell s = (if s \<in> set na_values then NaN else Str s)"

text \<open>\<open>to_csv\<close> writes a missing value as the empty field (\<open>na_rep=''\<close>).\<close>

fun render_cell :: "cell \<Rightarrow> string" where
  "render_cell NaN = ''''"
| "render_cell (Str s) = s"

text \<open>A record with fewer fields than the header is read with missing values at
  its end. A \<open>Csv\<close> value stands for a file none of whose records has more fields
  than the header.\<close>

definition pad :: "nat \<Rightarrow> string list \<Rightarrow> string list" where
  "pad n r = take n (r @ replicate n '''')"

fun read_csv :: "disk_file \<Rightarrow> dataframe option" where
  "read_csv (Garbage b) = None"
| "read_csv (Csv h rs) =
     Some \<lparr>columns = h, rows = map (\<lambda>r. map parse_cell (pad (length h) r)) rs\<rparr>"

definition to_csv :: "dataframe \<Rightarrow> disk_file" where
  "to_csv df = Csv (columns df) (map (map render_cell) (rows df))"

text \<open>The part of a path up to its last \<open>/\<close>.\<close>

definition dir_part :: "string \<Rightarrow> string" where
  "dir_part p = rev (dropWhile (\<lambda>c. c \<noteq> CHR ''/'') (rev p))"

text \<open>
  \<open>os.rename(src, dst)\<close> for a file \<open>src\<close> that exists, on POSIX. Nothing happens
  when both name the same file; a target in the directory of \<open>src\<close> is replaced. A
  target in another directory is the \<open>FileNotFoundError\<close> (\<open>None\<close>) that
  \<open>os.rename\<close> raises when that directory does not exist: the map holds no
  directories, and the only rename of the source goes to the backup name, which
  lies in another directory only when \<open>.csv\<close> occurs in a directory name and is
  replaced there by a name with the time stamp.
\<close>

definition os_rename :: "string \<Rightarrow> string \<Rightarrow> fs \<Rightarrow> fs option" where
  "os_rename src dst files =
     (if src = dst then Some files
      else if dir_part dst = dir_part src then Some ((files(dst := files src))(src := None))
      else None)"

text \<open>\<open>s.replace(old, new)\<close>: every occurrence of \<open>old\<close>, left to right, without
  overlap.\<close>

function str_replace :: "string \<Rightarrow> string \<Rightarrow> string \<Rightarrow> string" where
  "str_replace old new [] = []"
| "str_replace old new (c # cs) =
     (if old \<noteq> [] \<and> take (length old) (c # cs) = old
      then new @ str_replace old new (drop (length old) (c # cs))
      else c # str_replace old new cs)"
  by pat_completeness auto
termination
  by (relation "measure (\<lambda>(old, new, s). length s)") auto

section \<open>Python strings\<close>

text \<open>
  A string is held as its UTF-8 bytes, and Python counts, slices and strips by
  character. \<open>chars\<close> cuts a string into its characters: a byte \<open>10xxxxxx\<close> continues
  the character before it.
\<close>

definition is_cont :: "char \<Rightarrow> bool" where
  "is_cont c = (128 \<le> (of_char c :: nat) \<and> (of_char c :: nat) < 192)"

function chars :: "string \<Rightarrow> string list" where
  "chars [] = []"
| "chars (c # cs) = (c # takeWhile is_cont cs) # chars (dropWhile is_cont cs)"
  by pat_completeness auto
termination
  by (relation "measure length") (auto simp: less_Suc_eq_le length_dropWhile_le)

text \<open>\<open>len(s)\<close> and \<open>s[:n]\<close>.\<close>

definition py_len :: "string \<Rightarrow> nat" where
  "py_len s = length (chars s)"

definition py_take :: "nat \<Rightarrow> string \<Rightarrow> string" where
  "py_take n s = concat (take n (chars s))"

text \<open>
  The characters \<open>str.strip()\<close> removes: U+0009 to U+000D, U+001C to U+0020,
  U+0085, U+00A0, U+1680, U+2000 to U+200A, U+2028, U+2029, U+202F, U+205F and
  U+3000.
\<close>

definition whitespace :: "string list" where
  "whitespace =
     [[CHR 0x09], [CHR 0x0A], [CHR 0x0B], [CHR 0x0C], [CHR 0x0D],
      [CHR 0x1C], [CHR 0x1D], [CHR 0x1E], [CHR 0x1F], [CHR 0x20],
      [CHR 0xC2, CHR 0x85], [CHR 0xC2, CHR 0xA0], [CHR 0xE1, CHR 0x9A, CHR 0x80],
      [CHR 0xE2, CHR 0x80, CHR 0x80], [CHR 0xE2, CHR 0x80, CHR 0x81],
      [CHR 0xE2, CHR 0x80, CHR 0x82], [CHR 0xE2, CHR 0x80, CHR 0x83],
      [CHR 0xE2, CHR 0x80, CHR 0x84], [CHR 0xE2, CHR 0x80, CHR 0x85],
      [CHR 0xE2, CHR 0x80, CHR 0x86], [CHR 0xE2, CHR 0x80, CHR 0x87],
      [CHR 0xE2, CHR 0x80, CHR 0x88], [CHR 0xE2, CHR 0x80, CHR 0x89],
      [CHR 0xE2, CHR 0x80, CHR 0x8A], [CHR 0xE2, CHR 0x80, CHR 0xA8],
      [CHR 0xE2, CHR 0x80, CHR 0xA9], [CHR 0xE2, CHR 0x80, CHR 0xAF],
      [CHR 0xE2, CHR 0x81, CHR 0x9F], [CHR 0xE3, CHR 0x80, CHR 0x80]]"

definition is_space :: "string \<Rightarrow> bool" where
  "is_space ch = (ch \<in> set whitespace)"

definition strip :: "string \<Rightarrow> string" where
  "strip s = concat (rev (dropWhile is_space (rev (dropWhile is_space (chars s)))))"

text \<open>\<open>sub in s\<close> and \<open>s.startswith(p)\<close>; on UTF-8 bytes they are what they are on
  characters.\<close>

fun is_in :: "string \<Rightarrow> string \<Rightarrow> bool" where
  "is_in sub [] = (sub = [])"
| "is_in sub (c # cs) = (take (length sub) (c # cs) = sub \<or> is_in sub cs)"

definition startswith :: "string \<Rightarrow> string \<Rightarrow> bool" where
  "startswith s p = (take (length p) s = p)"

text \<open>
  \<open>s.lower()\<close>, as far as the source looks at it: every use is a test for a keyword
  of ASCII letters in the lower case of a text. The ASCII capitals go to their
  small letters; of the other characters only U+212A (to \<open>k\<close>) and U+0130 (to \<open>i\<close>
  and U+0307) have an ASCII letter in their lower case. Any other character is
  left as it is, where Python may put another character that is not ASCII.
\<close>

definition lower_char :: "string \<Rightarrow> string" where
  "lower_char ch =
     (case ch of
        [c] \<Rightarrow> (let n = (of_char c :: nat)
                in if 65 \<le> n \<and> n \<le> 90 then [char_of (n + 32)] else [c])
      | _ \<Rightarrow> if ch = [CHR 0xE2, CHR 0x84, CHR 0xAA] then ''k''
             else if ch = [CHR 0xC4, CHR 0xB0] then [CHR ''i'', CHR 0xCC, CHR 0x87]
             else ch)"

definition lower :: "string \<Rightarrow> string" where
  "lower s = concat (map lower_char (chars s))"

section \<open>The append-mode scraper (web2.py)\<close>

record property_data =
  Property_Title :: string
  Location :: string
  Price :: string
  Property_Type :: string
  Area :: string
  Bedrooms :: string
  Furnishing :: string
  Posted_By :: string
  Rating :: string

text \<open>The dict \<open>extract_property_data\<close> builds, with its keys in the order of the
  literal.\<close>

definition to_dict :: "property_data \<Rightarrow> pydict" where
  "to_dict p =
     [(''Property Title'', Str (Property_Title p)),
      (''Location'', Str (Location p)),
      (''Price'', Str (Price p)),
      (''Property Type'', Str (Property_Type p)),
      (''Area'', Str (Area p)),
      (''Bedrooms'', Str (Bedrooms p)),
      (''Furnishing'', Str (Furnishing p)),
      (''Posted By'', Str (Posted_By p)),
      (''Rating'', Str (Rating p))]"

definition natural_key :: "string list" where
  "natural_key = [''Property Title'', ''Location'']"

definition backup_path :: "string \<Rightarrow> string \<Rightarrow> string" where
  "backup_path stamp output_path =
     str_replace ''.csv'' (''_backup_'' @ stamp @ ''.csv'') output_path"

text \<open>The body of the inner \<open>try\<close>: load the table, put the new rows after the old
  ones, drop duplicates. \<open>None\<close> is an exception raised there.\<close>

definition merge_existing :: "disk_file \<Rightarrow> dataframe \<Rightarrow> dataframe option" where
  "merge_existing f new_df =
     (case read_csv f of
        None \<Rightarrow> None
      | Some existing_df \<Rightarrow> drop_duplicates natural_key (concat_frames existing_df new_df))"

definition new_frame :: "string \<Rightarrow> property_data list \<Rightarrow> dataframe" where
  "new_frame scraped_date properties =
     set_column ''Scraped_Date'' (Str scraped_date) (DataFrame (map to_dict properties))"

text \<open>
  \<open>save_to_csv(properties, output_path)\<close>. \<open>scraped_date\<close> and \<open>stamp\<close> are the two
  readings of the clock, formatted as the source formats them. The result is the
  returned flag and the file system afterwards. An exception of the inner \<open>try\<close>
  goes to its handler, which backs the file up and writes the new rows; an
  exception anywhere else goes to the outer handler, which returns \<open>False\<close>.
\<close>

definition save_to_csv ::
  "string \<Rightarrow> string \<Rightarrow> property_data list \<Rightarrow> string \<Rightarrow> fs \<Rightarrow> bool \<times> fs" where
  "save_to_csv scraped_date stamp properties output_path files =
     (if properties = [] then (False, files)
      else
        let new_df = new_frame scraped_date properties in
        case files output_path of
          Some f \<Rightarrow>
            (case merge_existing f new_df of
               Some combined_df \<Rightarrow> (True, files(output_path \<mapsto> to_csv combined_df))
             | None \<Rightarrow>
                 (case os_rename output_path (backup_path stamp output_path) files of
                    Some renamed \<Rightarrow> (True, renamed(output_path \<mapsto> to_csv new_df))
                  | None \<Rightarrow> (False, files)))
        | None \<Rightarrow>
            (case drop_duplicates natural_key new_df of
               Some deduped \<Rightarrow> (True, files(output_path \<mapsto> to_csv deduped))
             | None \<Rightarrow> (False, files)))"

subsection \<open>Extracting one listing card\<close>





section \<open>Listing pages: the property URLs (fastscrap3.py, webscrap2.py)\<close>

text \<open>What a browser gives for a URL: no browser could be had, loading raised, or
  the page.\<close>

datatype 'a fetched = NoDriver | LoadError | Loaded 'a

definition base_url :: string where
  "base_url = ''https://www.99acres.com''"

definition looks_like_property :: "string \<Rightarrow> bool" where
  "looks_like_property href =
     ((is_in ''bhk'' (lower href) \<or> is_in ''bedroom'' (lower href) \<or>
       is_in ''independent'' (lower href) \<or> is_in ''flat'' (lower href) \<or>
       is_in ''apartment'' (lower href)) \<and> is_in ''spid-'' (lower href))"

definition absolute :: "string \<Rightarrow> string" where
  "absolute href =
     (if \<not> startswith href ''http''
      then (if startswith href ''/'' then base_url @ href else base_url @ ''/'' @ href)
      else href)"

text \<open>The loop over \<open>all_links\<close> of fastscrap3.py; \<open>property_urls\<close> is the list
  built so far.\<close>

fun collect_links :: "string list \<Rightarrow> string list \<Rightarrow> string list" where
  "collect_links property_urls [] = property_urls"
| "collect_links property_urls (href # links) =
     (if href = [] then collect_links property_urls links
      else if looks_like_property href
      then (if \<not> is_in ''/search/'' (absolute href) \<and> absolute href \<notin> set property_urls
            then collect_links (property_urls @ [absolute href]) links
            else collect_links property_urls links)
      else collect_links property_urls links)"

definition extract_urls_from_page :: "string list fetched \<Rightarrow> string list" where
  "extract_urls_from_page fetched =
     (case fetched of
        Loaded all_links \<Rightarrow> dict_fromkeys (collect_links [] all_links)
      | _ \<Rightarrow> [])"

text \<open>The loop of webscrap2.py appends without looking at the list built so far.\<close>

fun collect_links_webscrap2 :: "string list \<Rightarrow> string list \<Rightarrow> string list" where
  "collect_links_webscrap2 property_urls [] = property_urls"
| "collect_links_webscrap2 property_urls (href # links) =
     (if href = [] then collect_links_webscrap2 property_urls links
      else if looks_like_property href
      then (if \<not> is_in ''/search/'' (absolute href)
            then collect_links_webscrap2 (property_urls @ [absolute href]) links
            else collect_links_webscrap2 property_urls links)
      else collect_links_webscrap2 property_urls links)"

definition extract_urls_from_page_webscrap2 :: "string list option \<Rightarrow> string list" where
  "extract_urls_from_page_webscrap2 page_src =
     (case page_src of
        Some all_links \<Rightarrow> dict_fromkeys (collect_links_webscrap2 [] all_links)
      | None \<Rightarrow> [])"

section \<open>Detail pages (fastscrap3.py)\<close>

text \<open>
  A detail page as \<open>extract_property_details\<close> looks at it: the text of the first
  \<open>h1\<close> as \<open>get_text(strip=True)\<close> gives it, if there is one, and the text of the
  whole page as \<open>soup.get_text()\<close> gives it, which holds the text of the \<open>h1\<close> too.
\<close>

record page =
  h1 :: "string option"
  all_text :: string

text \<open>
  The regular expressions of the source, by the field they look for. Python's \<open>re\<close>
  is a parameter of the model: \<open>re_search\<close> gives groups 0 and 1 of the first match,
  \<open>re_findall\<close> all matches.
\<close>

datatype pattern =
  PricePat | BedPat | BathPat | BalconyPat | AreaPat | RatePat | DepositPat
  | LocationPat string | AddressPat | PostedDatePat | AvailablePat

record regex =
  re_search :: "pattern \<Rightarrow> string \<Rightarrow> (string \<times> string) option"
  re_findall :: "pattern \<Rightarrow> string \<Rightarrow> string list"

definition rupee :: string where
  "rupee = [CHR 0xE2, CHR 0x82, CHR 0xB9]"

definition set_item :: "string \<Rightarrow> string \<Rightarrow> pydict \<Rightarrow> pydict" where
  "set_item k v d = AList.update k (Str v) d"

definition initial_details :: "string \<Rightarrow> string \<Rightarrow> pydict" where
  "initial_details property_url now =
     [(''Property_Title'', Str ''N/A''),
      (''Property_URL'', Str property_url),
      (''Location'', Str ''N/A''),
      (''Address'', Str ''N/A''),
      (''Price'', Str ''N/A''),
      (''Rate_per_sqft'', Str ''N/A''),
      (''Deposit'', Str ''N/A''),
      (''Property_Type'', Str ''N/A''),
      (''Room_Type'', Str ''N/A''),
      (''Bedrooms'', Str ''N/A''),
      (''Bathrooms'', Str ''N/A''),
      (''Balconies'', Str ''N/A''),
      (''Furnishing'', Str ''N/A''),
      (''Carpet_Area'', Str ''N/A''),
      (''Available_From'', Str ''N/A''),
      (''Available_For'', Str ''N/A''),
      (''Posted_By'', Str ''N/A''),
      (''Posted_Date'', Str ''N/A''),
      (''Rating'', Str ''N/A''),
      (''Nearby_Places'', Str ''N/A''),
      (''Scraped_Date'', Str now)]"

text \<open>The keys of that dict.\<close>

definition detail_keys :: "string list" where
  "detail_keys =
     [''Property_Title'', ''Property_URL'', ''Location'', ''Address'', ''Price'',
      ''Rate_per_sqft'', ''Deposit'', ''Property_Type'', ''Room_Type'', ''Bedrooms'',
      ''Bathrooms'', ''Balconies'', ''Furnishing'', ''Carpet_Area'', ''Available_From'',
      ''Available_For'', ''Posted_By'', ''Posted_Date'', ''Rating'', ''Nearby_Places'',
      ''Scraped_Date'']"

text \<open>Set field \<open>k\<close> from the first match of \<open>pat\<close>, if there is one.\<close>

definition on_match ::
  "regex \<Rightarrow> pattern \<Rightarrow> string \<Rightarrow> string \<Rightarrow> (string \<times> string \<Rightarrow> string) \<Rightarrow> pydict \<Rightarrow> pydict" where
  "on_match re pat txt k val d =
     (case re_search re pat txt of Some m \<Rightarrow> set_item k (val m) d | None \<Rightarrow> d)"

definition location_keywords :: "string list" where
  "location_keywords =
     [''Paschim Vihar'', ''West Delhi'', ''Delhi'', ''Nagar'', ''Sector'', ''Phase'']"

fun location_loop :: "regex \<Rightarrow> string \<Rightarrow> string list \<Rightarrow> pydict \<Rightarrow> pydict" where
  "location_loop re txt [] d = d"
| "location_loop re txt (keyword # keywords) d =
     (if is_in (lower keyword) (lower txt)
      then (case re_search re (LocationPat keyword) txt of
              Some m \<Rightarrow> set_item ''Location'' (py_take 80 (strip (fst m))) d
            | None \<Rightarrow> location_loop re txt keywords d)
      else location_loop re txt keywords d)"

text \<open>The blocks of \<open>extract_property_details\<close> that are not a single search.\<close>

definition title_block :: "page \<Rightarrow> pydict \<Rightarrow> pydict" where
  "title_block pg d = (case h1 pg of Some t \<Rightarrow> set_item ''Property_Title'' t d | None \<Rightarrow> d)"

definition furnishing_block :: "string \<Rightarrow> pydict \<Rightarrow> pydict" where
  "furnishing_block txt d =
     (if is_in ''Semi-Furnished'' txt then set_item ''Furnishing'' ''Semi-Furnished'' d
      else if is_in ''Furnished'' txt \<and> \<not> is_in ''Unfurnished'' txt
      then set_item ''Furnishing'' ''Furnished'' d
      else if is_in ''Unfurnished'' txt then set_item ''Furnishing'' ''Unfurnished'' d
      else d)"

definition address_block :: "regex \<Rightarrow> string \<Rightarrow> pydict \<Rightarrow> pydict" where
  "address_block re txt d =
     (case re_findall re AddressPat txt of
        [] \<Rightarrow> d
      | a # _ \<Rightarrow> set_item ''Address'' (py_take 100 (strip a)) d)"

definition posted_by_block :: "string \<Rightarrow> pydict \<Rightarrow> pydict" where
  "posted_by_block txt d =
     (if is_in ''Dealer'' txt then set_item ''Posted_By'' ''Dealer'' d
      else if is_in ''Owner'' txt then set_item ''Posted_By'' ''Owner'' d
      else d)"

definition available_block :: "regex \<Rightarrow> string \<Rightarrow> pydict \<Rightarrow> pydict" where
  "available_block re txt d =
     (if is_in ''Immediate'' txt \<or> is_in ''immediate'' txt
      then set_item ''Available_From'' ''Immediate'' d
      else on_match re AvailablePat txt ''Available_From'' (\<lambda>m. strip (snd m)) d)"

definition property_type_block :: "string \<Rightarrow> pydict \<Rightarrow> pydict" where
  "property_type_block txt d =
     (if is_in ''Independent'' txt then set_item ''Property_Type'' ''Independent'' d
      else if is_in ''Apartment'' txt \<or> is_in ''Flat'' txt
      then set_item ''Property_Type'' ''Apartment/Flat'' d
      else if is_in ''Villa'' txt then set_item ''Property_Type'' ''Villa'' d
      else d)"

text \<open>The body of the \<open>try\<close> after the page is loaded, block by block in the order
  of the source.\<close>

definition extract_fields :: "regex \<Rightarrow> page \<Rightarrow> pydict \<Rightarrow> pydict" where
  "extract_fields re pg d0 =
     (let txt = all_text pg;
          d1 = title_block pg d0;
          d2 = on_match re PricePat txt ''Price'' (\<lambda>m. strip (fst m)) d1;
          d3 = on_match re BedPat txt ''Bedrooms'' snd d2;
          d4 = on_match re BathPat txt ''Bathrooms'' snd d3;
          d5 = on_match re BalconyPat txt ''Balconies'' snd d4;
          d6 = on_match re AreaPat txt ''Carpet_Area'' (\<lambda>m. snd m @ '' sq.ft'') d5;
          d7 = on_match re RatePat txt ''Rate_per_sqft'' (\<lambda>m. rupee @ snd m) d6;
          d8 = on_match re DepositPat txt ''Deposit''
                 (\<lambda>m. str_replace [CHR 0x0A] '' '' (snd m)) d7;
          d9 = furnishing_block txt d8;
          d10 = location_loop re txt location_keywords d9;
          d11 = address_block re txt d10;
          d12 = posted_by_block txt d11;
          d13 = on_match re PostedDatePat txt ''Posted_Date'' (\<lambda>m. strip (snd m)) d12;
          d14 = available_block re txt d13
      in property_type_block txt d14)"

text \<open>\<open>extract_property_details(property_url)\<close>; \<open>now\<close> is the clock when the record
  is created. \<open>None\<close> is returned without a browser and from the handler of the
  \<open>try\<close> around loading and extraction.\<close>

definition extract_property_details ::
  "regex \<Rightarrow> string \<Rightarrow> page fetched \<Rightarrow> string \<Rightarrow> pydict option" where
  "extract_property_details re now fetched property_url =
     (case fetched of
        NoDriver \<Rightarrow> None
      | LoadError \<Rightarrow> None
      | Loaded pg \<Rightarrow> Some (extract_fields re pg (initial_details property_url now)))"

section \<open>The optimized scraper (fastscrap3.py)\<close>

text \<open>
  The scraper object and what it acts on: the accumulated records, the files, and
  the listing pages it has asked for.
\<close>

record scraper =
  properties :: "pydict list"
  disk :: fs
  walked :: "int list"

text \<open>
  The world outside: what each listing page and each detail page gives, and the
  clock at the extraction of each URL.
\<close>

record web =
  listing_page :: "int \<Rightarrow> string list fetched"
  detail_page :: "string \<Rightarrow> page fetched"
  clock :: "string \<Rightarrow> string"

text \<open>
  \<open>as_completed\<close> yields the submitted tasks in the order they finish. The order
  is given by a schedule: at each step its head, modulo the number of tasks still
  running, picks the task that finishes next.
\<close>

function as_completed :: "nat list \<Rightarrow> 'a list \<Rightarrow> 'a list" where
  "as_completed sched [] = []"
| "as_completed sched (x # xs) =
     (let i = (case sched of [] \<Rightarrow> 0 | s # _ \<Rightarrow> s mod length (x # xs))
      in (x # xs) ! i # as_completed (tl sched) (take i (x # xs) @ drop (Suc i) (x # xs)))"
  by pat_completeness auto
termination
  by (relation "measure (\<lambda>(sched, xs). length xs)") (auto split: list.splits)

definition columns_optimized :: "string list" where
  "columns_optimized =
     [''Property_Title'', ''Location'', ''Address'', ''Price'',
      ''Rate_per_sqft'', ''Deposit'', ''Property_Type'', ''Room_Type'',
      ''Bedrooms'', ''Bathrooms'', ''Balconies'', ''Furnishing'', ''Carpet_Area'',
      ''Available_From'', ''Available_For'', ''Posted_By'', ''Posted_Date'',
      ''Rating'', ''Nearby_Places'', ''Scraped_Date'', ''Property_URL'']"

text \<open>The loop \<open>for col in columns: if col not in df.columns: df[col] = "N/A"\<close>.\<close>

fun fill_columns :: "string list \<Rightarrow> dataframe \<Rightarrow> dataframe" where
  "fill_columns [] df = df"
| "fill_columns (col # cols) df =
     fill_columns cols (if col \<notin> set (columns df) then set_column col (Str ''N/A'') df else df)"

text \<open>\<open>df[columns]\<close>; \<open>None\<close> is the \<open>KeyError\<close> for a column the frame lacks.\<close>

definition select_columns :: "string list \<Rightarrow> dataframe \<Rightarrow> dataframe option" where
  "select_columns cols df =
     (if set cols \<subseteq> set (columns df) then Some \<lparr>columns = cols, rows = reindex cols df\<rparr>
      else None)"

definition filename_optimized :: "string \<Rightarrow> string" where
  "filename_optimized stamp = ''dataset_optimized_'' @ stamp @ ''.csv''"

text \<open>\<open>save_to_csv(self)\<close> of the optimized scraper; an exception is logged and the
  scraper left as it was.\<close>

definition save_to_csv_optimized :: "string \<Rightarrow> scraper \<Rightarrow> scraper" where
  "save_to_csv_optimized stamp self =
     (case select_columns columns_optimized
             (fill_columns columns_optimized (DataFrame (properties self))) of
        Some df \<Rightarrow> self\<lparr>disk := (disk self)(filename_optimized stamp \<mapsto> to_csv df)\<rparr>
      | None \<Rightarrow> self)"


text \<open>Step 2 of \<open>scrape_all\<close>: the results in the order of completion; a result that
  is a record (\<open>if prop_data:\<close>) is appended.\<close>

fun collect_details :: "pydict option list \<Rightarrow> pydict list \<Rightarrow> pydict list" where
  "collect_details [] props = props"
| "collect_details (None # results) props = collect_details results props"
| "collect_details (Some prop_data # results) props =
     (if prop_data \<noteq> [] then collect_details results (props @ [prop_data])
      else collect_details results props)"

definition detail_collector ::
  "regex \<Rightarrow> web \<Rightarrow> nat list \<Rightarrow> string list \<Rightarrow> pydict list \<Rightarrow> pydict list" where
  "detail_collector re w sched all_urls props =
     collect_details
       (map (\<lambda>url. extract_property_details re (clock w url) (detail_page w url) url)
            (as_completed sched all_urls))
       props"


section \<open>Facts about keeping first occurrences\<close>

lemma keep_first_keys: "f ` set (keep_first f seen xs) = f ` set xs - set seen"
  by (induction xs arbitrary: seen) auto

lemma keep_first_subset: "set (keep_first f seen xs) \<subseteq> set xs"
  by (induction xs arbitrary: seen) auto

lemma keep_first_distinct: "distinct (map f (keep_first f seen xs))"
proof (induction xs arbitrary: seen)
  case Nil
  show ?case by simp
next
  case (Cons x xs)
  have "f x \<notin> f ` set (keep_first f (f x # seen) xs)"
    by (simp add: keep_first_keys)
  with Cons show ?case by simp
qed

lemma keep_first_seen_cong:
  "set s = set s' \<Longrightarrow> keep_first f s xs = keep_first f s' xs"
proof (induction xs arbitrary: s s')
  case Nil
  show ?case by simp
next
  case (Cons x xs)
  have "keep_first f (f x # s) xs = keep_first f (f x # s') xs"
    by (rule Cons.IH) (simp add: Cons.prems)
  moreover have "keep_first f s xs = keep_first f s' xs"
    by (rule Cons.IH) (rule Cons.prems)
  ultimately show ?case using Cons.prems by simp
qed

lemma keep_first_append:
  "keep_first f seen (xs @ ys) =
     keep_first f seen xs @ keep_first f (map f xs @ seen) ys"
proof (induction xs arbitrary: seen)
  case Nil
  show ?case by simp
next
  case (Cons x xs)
  show ?case
  proof (cases "f x \<in> set seen")
    case True
    have "keep_first f (map f xs @ seen) ys = keep_first f (map f (x # xs) @ seen) ys"
      by (rule keep_first_seen_cong) (use True in auto)
    with True Cons show ?thesis by simp
  next
    case False
    have "keep_first f (map f xs @ f x # seen) ys = keep_first f (map f (x # xs) @ seen) ys"
      by (rule keep_first_seen_cong) auto
    with False Cons show ?thesis by simp
  qed
qed

lemma keep_first_all_seen:
  "f ` set ys \<subseteq> set seen \<Longrightarrow> keep_first f seen ys = []"
  by (induction ys arbitrary: seen) auto

lemma keep_first_id:
  "distinct (map f xs) \<Longrightarrow> f ` set xs \<inter> set seen = {} \<Longrightarrow> keep_first f seen xs = xs"
  by (induction xs arbitrary: seen) auto

lemma find_keep_first:
  "k \<notin> set seen \<Longrightarrow> find (\<lambda>r. f r = k) (keep_first f seen xs) = find (\<lambda>r. f r = k) xs"
  by (induction xs arbitrary: seen) auto

lemma set_dict_fromkeys: "set (dict_fromkeys xs) = set xs"
  using keep_first_keys [of "\<lambda>x. x" "[]" xs] by (simp add: dict_fromkeys_def)

lemma distinct_dict_fromkeys: "distinct (dict_fromkeys xs)"
  using keep_first_distinct [of "\<lambda>x. x" "[]" xs] by (simp add: dict_fromkeys_def)

lemma find_append_left:
  "k \<in> f ` set xs \<Longrightarrow> find (\<lambda>r. f r = k) (xs @ ys) = find (\<lambda>r. f r = k) xs"
  by (induction xs) auto

lemma find_distinct_key:
  "distinct (map f xs) \<Longrightarrow> r \<in> set xs \<Longrightarrow> find (\<lambda>x. f x = f r) xs = Some r"
  by (induction xs) (auto simp: image_iff)

lemma find_Some_mem: "find P xs = Some r \<Longrightarrow> r \<in> set xs"
  by (induction xs) (auto split: if_splits)

section \<open>Merging into the table (web2.py)\<close>

lemma columns_concat_frames:
  "set (columns (concat_frames a b)) = set (columns a) \<union> set (columns b)"
  by (simp add: concat_frames_def Let_def set_dict_fromkeys)

lemma rows_concat_frames:
  "rows (concat_frames a b) =
     reindex (columns (concat_frames a b)) a @ reindex (columns (concat_frames a b)) b"
  by (simp add: concat_frames_def Let_def)

lemma merge_first_row_wins:
  assumes "drop_duplicates natural_key (concat_frames existing_df new_df) = Some merged"
    and "e \<in> set (reindex (columns merged) existing_df)"
  shows "find (\<lambda>r. row_key (columns merged) natural_key r =
                   row_key (columns merged) natural_key e) (rows merged)
       = find (\<lambda>r. row_key (columns merged) natural_key r =
                   row_key (columns merged) natural_key e)
           (reindex (columns merged) existing_df)"
proof -
  define both where "both = concat_frames existing_df new_df"
  define K where "K = row_key (columns both) natural_key"
  define A where "A = reindex (columns both) existing_df"
  define B where "B = reindex (columns both) new_df"
  have merged: "merged = both\<lparr>rows := keep_first K [] (rows both)\<rparr>"
    using assms(1) unfolding both_def K_def
    by (simp add: drop_duplicates_def split: if_splits)
  have cols: "columns merged = columns both"
    by (simp add: merged)
  have rows_both: "rows both = A @ B"
    unfolding A_def B_def both_def by (rule rows_concat_frames)
  have rows_merged: "rows merged = keep_first K [] (A @ B)"
    by (simp add: merged rows_both)
  have e: "e \<in> set A"
    using assms(2) by (simp add: cols A_def)
  have "find (\<lambda>r. K r = K e) (rows merged) = find (\<lambda>r. K r = K e) (A @ B)"
    unfolding rows_merged by (rule find_keep_first) simp
  also have "\<dots> = find (\<lambda>r. K r = K e) A"
    by (rule find_append_left) (use e in auto)
  finally show ?thesis
    by (simp add: cols K_def A_def)
qed

text \<open>
  C1 (merge tie-break). On the frames in memory the rule holds: by
  \<open>merge_first_row_wins\<close> the row kept for the key of a row of the loaded table is
  the first row of the loaded table with that key. The claim fails through the
  file. A row that was written with the sentinel \<open>N/A\<close> for its location is loaded
  with a missing value there, and a missing value is not the string \<open>N/A\<close> of a new
  record of the same listing. Here the table holds a row of the title
  \<open>3 BHK Builder Floor\<close> whose location was not found, at the price 40,000, and the
  batch holds a record of the same title and location at 45,000: both rows are
  written, the old one with empty fields where it had \<open>N/A\<close>.
\<close>

theorem save_to_csv_keeps_both_rows_of_one_key:
  "(let path = ''data/data.csv'';
        header = [''Property Title'', ''Location'', ''Price'', ''Property Type'', ''Area'',
                  ''Bedrooms'', ''Furnishing'', ''Posted By'', ''Rating'', ''Scraped_Date''];
        files = [path \<mapsto> Csv header
                   [[''3 BHK Builder Floor'', ''N/A'', ''40,000'', ''Builder Floor'',
                     ''1,500 sqft'', ''3 Bedrooms'', ''Semi-Furnished'', ''N/A'', ''N/A'',
                     ''2026-11-01 09:00:00'']]];
        batch = [\<lparr>Property_Title = ''3 BHK Builder Floor'', Location = ''N/A'',
                   Price = ''45,000'', Property_Type = ''Builder Floor'',
                   Area = ''1,500 sqft'', Bedrooms = ''3 Bedrooms'',
                   Furnishing = ''Semi-Furnished'', Posted_By = ''N/A'', Rating = ''N/A''\<rparr>];
        saved = save_to_csv ''2026-11-03 10:00:00'' ''20261103_100000'' batch path files
    in fst saved
     \<and> snd saved path = Some (Csv header
          [[''3 BHK Builder Floor'', '''', ''40,000'', ''Builder Floor'',
            ''1,500 sqft'', ''3 Bedrooms'', ''Semi-Furnished'', '''', '''',
            ''2026-11-01 09:00:00''],
           [''3 BHK Builder Floor'', ''N/A'', ''45,000'', ''Builder Floor'',
            ''1,500 sqft'', ''3 Bedrooms'', ''Semi-Furnished'', ''N/A'', ''N/A'',
            ''2026-11-03 10:00:00'']]))"
  by code_simp

text \<open>
  C2 (keys unique after a merge). The claim fails where the file exists and cannot
  be loaded: the handler writes the new batch as it is, without the
  \<open>drop_duplicates\<close> that the branch for a missing file applies. A batch with two
  records of one key leaves two rows of that key in the written table.
\<close>

theorem save_to_csv_unreadable_keeps_duplicates:
  "snd (save_to_csv ''2026-11-03 10:00:00'' ''20261103_100000''
      [\<lparr>Property_Title = ''2 BHK Flat'', Location = ''Rohini'', Price = ''25,000'',
         Property_Type = ''N/A'', Area = ''N/A'', Bedrooms = ''N/A'', Furnishing = ''N/A'',
         Posted_By = ''N/A'', Rating = ''N/A''\<rparr>,
       \<lparr>Property_Title = ''2 BHK Flat'', Location = ''Rohini'', Price = ''25,000'',
         Property_Type = ''N/A'', Area = ''N/A'', Bedrooms = ''N/A'', Furnishing = ''N/A'',
         Posted_By = ''N/A'', Rating = ''N/A''\<rparr>]
      ''data/data.csv'' [''data/data.csv'' \<mapsto> Garbage ''not a table'']) ''data/data.csv''
   = Some (Csv [''Property Title'', ''Location'', ''Price'', ''Property Type'', ''Area'',
                ''Bedrooms'', ''Furnishing'', ''Posted By'', ''Rating'', ''Scraped_Date'']
       [[''2 BHK Flat'', ''Rohini'', ''25,000'', ''N/A'', ''N/A'', ''N/A'', ''N/A'', ''N/A'',
         ''N/A'', ''2026-11-03 10:00:00''],
        [''2 BHK Flat'', ''Rohini'', ''25,000'', ''N/A'', ''N/A'', ''N/A'', ''N/A'', ''N/A'',
         ''N/A'', ''2026-11-03 10:00:00'']])"
  by code_simp

text \<open>
  C3 (merging the same batch twice). The claim fails for a record whose location
  was not found: it is written with the sentinel \<open>N/A\<close>, which \<open>read_csv\<close> loads as a
  missing value at the second call, and a missing value is not the string \<open>N/A\<close> of
  the re-scraped record. The second call appends the record again: the table has
  two rows after one call and three after two.
\<close>

theorem save_to_csv_twice_adds_row:
  "(let path = ''data/data.csv'';
        header = [''Property Title'', ''Location'', ''Price'', ''Property Type'', ''Area'',
                  ''Bedrooms'', ''Furnishing'', ''Posted By'', ''Rating'', ''Scraped_Date''];
        batch = [\<lparr>Property_Title = ''3 BHK Builder Floor'', Location = ''N/A'',
                   Price = ''40,000'', Property_Type = ''N/A'', Area = ''N/A'',
                   Bedrooms = ''N/A'', Furnishing = ''N/A'', Posted_By = ''N/A'',
                   Rating = ''N/A''\<rparr>];
        files0 = [path \<mapsto> Csv header
                   [[''2 BHK Flat'', ''Rohini'', ''25,000'', ''Apartment'', ''900 sqft'',
                     ''2 Bedroom'', ''Furnished'', ''Owner'', ''4.1'', ''2026-11-01 09:00:00'']]];
        once = snd (save_to_csv ''2026-11-03 10:00:00'' ''20261103_100000'' batch path files0);
        twice = snd (save_to_csv ''2026-11-03 10:05:00'' ''20261103_100500'' batch path once)
    in once path = Some (Csv header
         [[''2 BHK Flat'', ''Rohini'', ''25,000'', ''Apartment'', ''900 sqft'',
           ''2 Bedroom'', ''Furnished'', ''Owner'', ''4.1'', ''2026-11-01 09:00:00''],
          [''3 BHK Builder Floor'', ''N/A'', ''40,000'', ''N/A'', ''N/A'', ''N/A'', ''N/A'',
           ''N/A'', ''N/A'', ''2026-11-03 10:00:00'']])
     \<and> twice path = Some (Csv header
         [[''2 BHK Flat'', ''Rohini'', ''25,000'', ''Apartment'', ''900 sqft'',
           ''2 Bedroom'', ''Furnished'', ''Owner'', ''4.1'', ''2026-11-01 09:00:00''],
          [''3 BHK Builder Floor'', '''', ''40,000'', '''', '''', '''', '''',
           '''', '''', ''2026-11-03 10:00:00''],
          [''3 BHK Builder Floor'', ''N/A'', ''40,000'', ''N/A'', ''N/A'', ''N/A'', ''N/A'',
           ''N/A'', ''N/A'', ''2026-11-03 10:05:00'']]))"
  by code_simp

lemma save_to_csv_unreadable:
  assumes "batch \<noteq> []" and "files output_path = Some f" and "read_csv f = None"
  shows "save_to_csv scraped_date stamp batch output_path files =
    (case os_rename output_path (backup_path stamp output_path) files of
       Some renamed \<Rightarrow> (True, renamed(output_path \<mapsto> to_csv (new_frame scraped_date batch)))
     | None \<Rightarrow> (False, files))"
  using assms by (simp add: save_to_csv_def Let_def merge_existing_def)

text \<open>
  C4 (backup of a table that cannot be loaded). The backup name is made by
  replacing \<open>.csv\<close> in the path. For a path without \<open>.csv\<close> the backup name is the
  path itself: the rename does nothing, the fresh table overwrites the file, and
  no path holds its bytes afterwards.
\<close>

theorem save_to_csv_overwrites_without_backup:
  "backup_path ''20261103_100000'' ''data/data.txt'' = ''data/data.txt''
   \<and> save_to_csv ''2026-11-03 10:00:00'' ''20261103_100000''
      [\<lparr>Property_Title = ''2 BHK Flat'', Location = ''Rohini'', Price = ''25,000'',
         Property_Type = ''N/A'', Area = ''N/A'', Bedrooms = ''N/A'', Furnishing = ''N/A'',
         Posted_By = ''N/A'', Rating = ''N/A''\<rparr>]
      ''data/data.txt'' [''data/data.txt'' \<mapsto> Garbage ''rows of an earlier run'']
   = (True, [''data/data.txt'' \<mapsto>
        Csv [''Property Title'', ''Location'', ''Price'', ''Property Type'', ''Area'',
             ''Bedrooms'', ''Furnishing'', ''Posted By'', ''Rating'', ''Scraped_Date'']
          [[''2 BHK Flat'', ''Rohini'', ''25,000'', ''N/A'', ''N/A'', ''N/A'', ''N/A'', ''N/A'',
            ''N/A'', ''2026-11-03 10:00:00'']]])
   \<and> (\<forall>q. snd (save_to_csv ''2026-11-03 10:00:00'' ''20261103_100000''
      [\<lparr>Property_Title = ''2 BHK Flat'', Location = ''Rohini'', Price = ''25,000'',
         Property_Type = ''N/A'', Area = ''N/A'', Bedrooms = ''N/A'', Furnishing = ''N/A'',
         Posted_By = ''N/A'', Rating = ''N/A''\<rparr>]
      ''data/data.txt'' [''data/data.txt'' \<mapsto> Garbage ''rows of an earlier run'']) q
     \<noteq> Some (Garbage ''rows of an earlier run''))"
proof -
  define batch where "batch =
      [\<lparr>Property_Title = ''2 BHK Flat'', Location = ''Rohini'', Price = ''25,000'',
         Property_Type = ''N/A'', Area = ''N/A'', Bedrooms = ''N/A'', Furnishing = ''N/A'',
         Posted_By = ''N/A'', Rating = ''N/A''\<rparr>]"
  define files :: fs where
    "files = [''data/data.txt'' \<mapsto> Garbage ''rows of an earlier run'']"
  have b: "backup_path ''20261103_100000'' ''data/data.txt'' = ''data/data.txt''"
    by code_simp
  have "batch \<noteq> []" "files ''data/data.txt'' = Some (Garbage ''rows of an earlier run'')"
    "read_csv (Garbage ''rows of an earlier run'') = None"
    by (simp_all add: batch_def files_def)
  from save_to_csv_unreadable [where files = files and output_path = "''data/data.txt''",
      OF this, of "''2026-11-03 10:00:00''" "''20261103_100000''"]
  have s: "save_to_csv ''2026-11-03 10:00:00'' ''20261103_100000'' batch
              ''data/data.txt'' files =
      (True, files(''data/data.txt'' \<mapsto> to_csv (new_frame ''2026-11-03 10:00:00'' batch)))"
    by (simp add: b os_rename_def)
  have v: "to_csv (new_frame ''2026-11-03 10:00:00'' batch) =
      Csv [''Property Title'', ''Location'', ''Price'', ''Property Type'', ''Area'',
                ''Bedrooms'', ''Furnishing'', ''Posted By'', ''Rating'', ''Scraped_Date'']
       [[''2 BHK Flat'', ''Rohini'', ''25,000'', ''N/A'', ''N/A'', ''N/A'', ''N/A'', ''N/A'',
         ''N/A'', ''2026-11-03 10:00:00'']]"
    unfolding batch_def by code_simp
  show ?thesis
    using b s v unfolding batch_def files_def by simp
qed

text \<open>
  At the configured path the handler does what its comments say: the file is found
  under the backup name and the path holds the new batch. Where \<open>.csv\<close> occurs in a
  directory name as well, the rename raises, the outer handler returns \<open>False\<close>, and
  nothing is written.
\<close>

lemma save_to_csv_backs_up_configured_path:
  "(let path = ''data/data.csv'';
        files = [path \<mapsto> Garbage ''rows of an earlier run''];
        saved = save_to_csv ''2026-11-03 10:00:00'' ''20261103_100000''
                  [\<lparr>Property_Title = ''2 BHK Flat'', Location = ''Rohini'', Price = ''25,000'',
                     Property_Type = ''N/A'', Area = ''N/A'', Bedrooms = ''N/A'',
                     Furnishing = ''N/A'', Posted_By = ''N/A'', Rating = ''N/A''\<rparr>]
                  path files
    in fst saved
     \<and> snd saved ''data/data_backup_20261103_100000.csv'' =
           Some (Garbage ''rows of an earlier run'')
     \<and> snd saved path =
           Some (Csv [''Property Title'', ''Location'', ''Price'', ''Property Type'', ''Area'',
                      ''Bedrooms'', ''Furnishing'', ''Posted By'', ''Rating'', ''Scraped_Date'']
             [[''2 BHK Flat'', ''Rohini'', ''25,000'', ''N/A'', ''N/A'', ''N/A'', ''N/A'',
               ''N/A'', ''N/A'', ''2026-11-03 10:00:00'']]))"
  by code_simp

lemma save_to_csv_rename_fails:
  "(let path = ''out.csv/data.csv'';
        files = [path \<mapsto> Garbage ''rows of an earlier run''];
        saved = save_to_csv ''2026-11-03 10:00:00'' ''20261103_100000''
                  [\<lparr>Property_Title = ''2 BHK Flat'', Location = ''Rohini'', Price = ''25,000'',
                     Property_Type = ''N/A'', Area = ''N/A'', Bedrooms = ''N/A'',
                     Furnishing = ''N/A'', Posted_By = ''N/A'', Rating = ''N/A''\<rparr>]
                  path files
    in backup_path ''20261103_100000'' path =
         ''out_backup_20261103_100000.csv/data_backup_20261103_100000.csv''
     \<and> \<not> fst saved
     \<and> snd saved path = Some (Garbage ''rows of an earlier run'')
     \<and> snd saved (backup_path ''20261103_100000'' path) = None)"
  by code_simp

section \<open>Extraction of one record\<close>

text \<open>Length, slices and stripping go by character, not by byte.\<close>

lemma py_len_counts_characters:
  "length (rupee @ ''5'') = 4" "py_len (rupee @ ''5'') = 2"
  "py_take 1 (rupee @ ''5'') = rupee"
  by code_simp+

lemma strip_no_break_space:
  "strip (''2B'' @ [CHR 0xC2, CHR 0xA0]) = ''2B''"
  "strip ('' 3 BHK Flat '' @ [CHR 0x0A]) = ''3 BHK Flat''"
  by code_simp+

lemma keys_initial_details: "map fst (initial_details url now) = detail_keys"
  by (simp add: initial_details_def detail_keys_def)

lemma keys_set_item:
  "map fst d = detail_keys \<Longrightarrow> k \<in> set detail_keys \<Longrightarrow> map fst (set_item k v d) = detail_keys"
  by (simp add: set_item_def update_keys)

lemma keys_on_match:
  "map fst d = detail_keys \<Longrightarrow> k \<in> set detail_keys \<Longrightarrow>
     map fst (on_match re pat t k g d) = detail_keys"
  by (simp add: on_match_def keys_set_item split: option.splits)

lemma keys_location_loop:
  "map fst d = detail_keys \<Longrightarrow> map fst (location_loop re t kws d) = detail_keys"
  by (induction kws) (simp_all add: keys_set_item detail_keys_def split: option.splits)

lemma keys_title_block:
  "map fst d = detail_keys \<Longrightarrow> map fst (title_block pg d) = detail_keys"
  by (simp add: title_block_def keys_set_item detail_keys_def split: option.splits)

lemma keys_furnishing_block:
  "map fst d = detail_keys \<Longrightarrow> map fst (furnishing_block t d) = detail_keys"
  by (simp add: furnishing_block_def keys_set_item detail_keys_def)

lemma keys_address_block:
  "map fst d = detail_keys \<Longrightarrow> map fst (address_block re t d) = detail_keys"
  by (simp add: address_block_def keys_set_item detail_keys_def split: list.splits)

lemma keys_posted_by_block:
  "map fst d = detail_keys \<Longrightarrow> map fst (posted_by_block t d) = detail_keys"
  by (simp add: posted_by_block_def keys_set_item detail_keys_def)

lemma keys_available_block:
  "map fst d = detail_keys \<Longrightarrow> map fst (available_block re t d) = detail_keys"
  by (simp add: available_block_def keys_set_item keys_on_match detail_keys_def)

lemma keys_property_type_block:
  "map fst d = detail_keys \<Longrightarrow> map fst (property_type_block t d) = detail_keys"
  by (simp add: property_type_block_def keys_set_item detail_keys_def)

lemma detail_keys_mem:
  "''Price'' \<in> set detail_keys" "''Bedrooms'' \<in> set detail_keys"
  "''Bathrooms'' \<in> set detail_keys" "''Balconies'' \<in> set detail_keys"
  "''Carpet_Area'' \<in> set detail_keys" "''Rate_per_sqft'' \<in> set detail_keys"
  "''Deposit'' \<in> set detail_keys" "''Posted_Date'' \<in> set detail_keys"
  by (simp_all add: detail_keys_def)

lemma keys_extract_fields:
  "map fst d = detail_keys \<Longrightarrow> map fst (extract_fields re pg d) = detail_keys"
  unfolding extract_fields_def Let_def
  by (intro keys_property_type_block keys_available_block keys_on_match keys_posted_by_block
      keys_address_block keys_location_loop keys_furnishing_block keys_title_block
      detail_keys_mem)

lemma extract_property_details_keys:
  "extract_property_details re now fetched url = Some d \<Longrightarrow> map fst d = detail_keys"
  by (auto simp: extract_property_details_def keys_extract_fields keys_initial_details
      split: fetched.splits)

lemma extract_property_details_nonempty:
  "extract_property_details re now fetched url \<noteq> Some []"
  using extract_property_details_keys [of re now fetched url "[]"]
  by (auto simp: detail_keys_def)














lemma get_set_item: "dict_get (set_item k v d) k' = (if k' = k then Str v else dict_get d k')"
  by (simp add: dict_get_def set_item_def update_conv)





















section \<open>The URLs of a listing page\<close>

lemma set_collect_links:
  "set (collect_links acc links) =
     set acc \<union> absolute ` {h \<in> set links. h \<noteq> [] \<and> looks_like_property h \<and>
                                 \<not> is_in ''/search/'' (absolute h)}"
  by (induction links arbitrary: acc) auto

lemma set_collect_links_webscrap2:
  "set (collect_links_webscrap2 acc links) =
     set acc \<union> absolute ` {h \<in> set links. h \<noteq> [] \<and> looks_like_property h \<and>
                                 \<not> is_in ''/search/'' (absolute h)}"
  by (induction links arbitrary: acc) auto

text \<open>
  C7 (order of the hyperlinks). For two lists of hyperlinks that are permutations of
  each other, the property URLs extracted from one and from the other are the same
  set, in fastscrap3.py and in webscrap2.py.
\<close>

theorem extract_urls_order_insensitive:
  assumes "mset links = mset links'"
  shows "set (extract_urls_from_page (Loaded links)) =
           set (extract_urls_from_page (Loaded links'))
       \<and> set (extract_urls_from_page_webscrap2 (Some links)) =
           set (extract_urls_from_page_webscrap2 (Some links'))"
proof -
  have "set links = set links'"
    using assms by (rule mset_eq_setD)
  then show ?thesis
    by (simp add: extract_urls_from_page_def extract_urls_from_page_webscrap2_def
        set_dict_fromkeys set_collect_links set_collect_links_webscrap2)
qed

theorem extract_urls_order_insensitive_witness:
  "mset [''/2-bhk-flat-for-rent-spid-A1'', ''/search/property/rent/delhi?bhk-spid-'',
         ''https://www.99acres.com/3-bhk-apartment-spid-C3'', ''/about-us'']
   = mset [''/about-us'', ''https://www.99acres.com/3-bhk-apartment-spid-C3'',
           ''/search/property/rent/delhi?bhk-spid-'', ''/2-bhk-flat-for-rent-spid-A1'']
   \<and> set (extract_urls_from_page
        (Loaded [''/2-bhk-flat-for-rent-spid-A1'', ''/search/property/rent/delhi?bhk-spid-'',
                 ''https://www.99acres.com/3-bhk-apartment-spid-C3'', ''/about-us'']))
     = set (extract_urls_from_page
        (Loaded [''/about-us'', ''https://www.99acres.com/3-bhk-apartment-spid-C3'',
                 ''/search/property/rent/delhi?bhk-spid-'', ''/2-bhk-flat-for-rent-spid-A1'']))
   \<and> extract_urls_from_page
        (Loaded [''/2-bhk-flat-for-rent-spid-A1'', ''/search/property/rent/delhi?bhk-spid-'',
                 ''https://www.99acres.com/3-bhk-apartment-spid-C3'', ''/about-us''])
     = [''https://www.99acres.com/2-bhk-flat-for-rent-spid-A1'',
        ''https://www.99acres.com/3-bhk-apartment-spid-C3'']"
proof -
  have p: "mset [''/2-bhk-flat-for-rent-spid-A1'', ''/search/property/rent/delhi?bhk-spid-'',
         ''https://www.99acres.com/3-bhk-apartment-spid-C3'', ''/about-us'']
   = mset [''/about-us'', ''https://www.99acres.com/3-bhk-apartment-spid-C3'',
           ''/search/property/rent/delhi?bhk-spid-'', ''/2-bhk-flat-for-rent-spid-A1'']"
    by simp
  have v: "extract_urls_from_page
        (Loaded [''/2-bhk-flat-for-rent-spid-A1'', ''/search/property/rent/delhi?bhk-spid-'',
                 ''https://www.99acres.com/3-bhk-apartment-spid-C3'', ''/about-us''])
     = [''https://www.99acres.com/2-bhk-flat-for-rent-spid-A1'',
        ''https://www.99acres.com/3-bhk-apartment-spid-C3'']"
    by code_simp
  from extract_urls_order_insensitive [OF p] p v show ?thesis by blast
qed

section \<open>The optimized scraper\<close>

lemma url_on_match:
  "k \<noteq> ''Property_URL'' \<Longrightarrow>
     dict_get (on_match re pat t k g d) ''Property_URL'' = dict_get d ''Property_URL''"
  by (simp add: on_match_def get_set_item split: option.splits)

lemma url_location_loop:
  "dict_get (location_loop re t kws d) ''Property_URL'' = dict_get d ''Property_URL''"
  by (induction kws) (simp_all add: get_set_item split: option.splits)

lemma url_title_block:
  "dict_get (title_block pg d) ''Property_URL'' = dict_get d ''Property_URL''"
  by (simp add: title_block_def get_set_item split: option.splits)

lemma url_furnishing_block:
  "dict_get (furnishing_block t d) ''Property_URL'' = dict_get d ''Property_URL''"
  by (simp add: furnishing_block_def get_set_item)

lemma url_address_block:
  "dict_get (address_block re t d) ''Property_URL'' = dict_get d ''Property_URL''"
  by (simp add: address_block_def get_set_item split: list.splits)

lemma url_posted_by_block:
  "dict_get (posted_by_block t d) ''Property_URL'' = dict_get d ''Property_URL''"
  by (simp add: posted_by_block_def get_set_item)

lemma url_available_block:
  "dict_get (available_block re t d) ''Property_URL'' = dict_get d ''Property_URL''"
  by (simp add: available_block_def get_set_item url_on_match)

lemma url_property_type_block:
  "dict_get (property_type_block t d) ''Property_URL'' = dict_get d ''Property_URL''"
  by (simp add: property_type_block_def get_set_item)

lemma url_extract_fields:
  "dict_get (extract_fields re pg d) ''Property_URL'' = dict_get d ''Property_URL''"
  unfolding extract_fields_def Let_def
  by (simp add: url_property_type_block url_available_block url_posted_by_block
      url_address_block url_furnishing_block url_title_block url_on_match url_location_loop)

lemma extract_property_details_url:
  "extract_property_details re now fetched url = Some d \<Longrightarrow>
     dict_get d ''Property_URL'' = Str url"
  by (auto simp: extract_property_details_def url_extract_fields
      split: fetched.splits) (simp add: initial_details_def dict_get_def)

lemma mset_as_completed: "mset (as_completed sched xs) = mset xs"
proof (induction sched xs rule: as_completed.induct)
  case (1 sched)
  show ?case by simp
next
  case (2 sched x xs)
  define i where "i = (case sched of [] \<Rightarrow> 0 | s # _ \<Rightarrow> s mod length (x # xs))"
  have i: "i < length (x # xs)"
    by (simp add: i_def split: list.splits)
  have "mset (as_completed sched (x # xs)) =
      add_mset ((x # xs) ! i) (mset (take i (x # xs) @ drop (Suc i) (x # xs)))"
    using "2.IH" [of i] by (simp add: i_def Let_def)
  also have "\<dots> = mset (take i (x # xs) @ (x # xs) ! i # drop (Suc i) (x # xs))"
    by simp
  also have "\<dots> = mset (x # xs)"
    using id_take_nth_drop [OF i] by simp
  finally show ?case .
qed

lemma collect_details_eq:
  "collect_details results props =
     props @ filter (\<lambda>d. d \<noteq> []) (List.map_filter (\<lambda>r. r) results)"
  by (induction results props rule: collect_details.induct)
     (simp_all add: List.map_filter_simps)

lemma map_filter_map: "List.map_filter (\<lambda>r. r) (map f xs) = List.map_filter f xs"
  by (induction xs) (simp_all add: List.map_filter_simps split: option.splits)

lemma mset_map_filter:
  "mset (List.map_filter f xs) = image_mset (\<lambda>x. the (f x)) (filter_mset (\<lambda>x. f x \<noteq> None) (mset xs))"
  by (induction xs) (auto simp: List.map_filter_simps split: option.splits)

lemma mset_map_filter_cong:
  "mset xs = mset ys \<Longrightarrow> mset (List.map_filter f xs) = mset (List.map_filter f ys)"
  by (simp add: mset_map_filter)

lemma detail_collector_eq:
  "detail_collector re w sched urls props =
     props @ List.map_filter
       (\<lambda>url. extract_property_details re (clock w url) (detail_page w url) url)
       (as_completed sched urls)"
proof -
  have ne: "filter (\<lambda>d. d \<noteq> []) (List.map_filter f xs) = List.map_filter f xs"
    if "\<And>x. f x \<noteq> Some []" for f :: "string \<Rightarrow> pydict option" and xs
    using that by (induction xs) (auto simp: List.map_filter_simps split: option.splits)
  show ?thesis
    unfolding detail_collector_def collect_details_eq map_filter_map
    by (subst ne) (simp_all add: extract_property_details_nonempty)
qed

text \<open>
  C6 (a failing URL does not abort the batch). Whatever the order in which the tasks
  complete, the detail collector appends to the records it had exactly the records
  of the URLs whose extraction returns one: as a multiset they are the records of
  \<open>extract_property_details\<close> over the URL list, their \<open>Property_URL\<close> fields are the
  URLs that loaded, each as often as it is in the list, and their number is the
  number of those URLs. The outcome of each URL is given by \<open>detail_page\<close>, as the
  claim supposes it fixed.
\<close>

theorem detail_collector_one_record_per_success:
  "\<exists>news.
     detail_collector re w sched urls props = props @ news
   \<and> mset news =
       mset (List.map_filter
         (\<lambda>url. extract_property_details re (clock w url) (detail_page w url) url) urls)
   \<and> mset (map (\<lambda>d. dict_get d ''Property_URL'') news) =
       mset (map Str (filter (\<lambda>url. detail_page w url \<noteq> NoDriver \<and>
                                      detail_page w url \<noteq> LoadError) urls))
   \<and> length news = length (filter (\<lambda>url. detail_page w url \<noteq> NoDriver \<and>
                                           detail_page w url \<noteq> LoadError) urls)"
proof -
  define f where
    "f = (\<lambda>url. extract_property_details re (clock w url) (detail_page w url) url)"
  define ok where
    "ok = (\<lambda>url. detail_page w url \<noteq> NoDriver \<and> detail_page w url \<noteq> LoadError)"
  define news where "news = List.map_filter f (as_completed sched urls)"
  have eq: "detail_collector re w sched urls props = props @ news"
    unfolding news_def f_def by (rule detail_collector_eq)
  have ms: "mset news = mset (List.map_filter f urls)"
    unfolding news_def by (rule mset_map_filter_cong) (rule mset_as_completed)
  have ok: "f url \<noteq> None \<longleftrightarrow> ok url" for url
    by (simp add: f_def ok_def extract_property_details_def split: fetched.splits)
  have url: "dict_get (the (f url)) ''Property_URL'' = Str url" if "ok url" for url
  proof -
    from that ok obtain d where "f url = Some d" by auto
    then show ?thesis
      using extract_property_details_url [of re "clock w url" "detail_page w url" url d]
      by (simp add: f_def)
  qed
  have urls: "map (\<lambda>d. dict_get d ''Property_URL'') (List.map_filter f xs) =
      map Str (filter ok xs)" for xs
  proof (induction xs)
    case Nil
    show ?case by (simp add: List.map_filter_simps)
  next
    case (Cons a xs)
    show ?case
    proof (cases "f a")
      case None
      with ok [of a] have "\<not> ok a" by simp
      with None Cons show ?thesis by (simp add: List.map_filter_simps)
    next
      case (Some d)
      with ok [of a] have "ok a" by simp
      with url [of a] Some have "dict_get d ''Property_URL'' = Str a" by simp
      with Some \<open>ok a\<close> Cons show ?thesis by (simp add: List.map_filter_simps)
    qed
  qed
  have "mset (map (\<lambda>d. dict_get d ''Property_URL'') news) =
      image_mset (\<lambda>d. dict_get d ''Property_URL'') (mset (List.map_filter f urls))"
    using ms by simp
  also have "\<dots> = mset (map (\<lambda>d. dict_get d ''Property_URL'') (List.map_filter f urls))"
    by simp
  also have "\<dots> = mset (map Str (filter ok urls))"
    by (simp only: urls)
  finally have m2: "mset (map (\<lambda>d. dict_get d ''Property_URL'') news) =
      mset (map Str (filter ok urls))" .
  have len: "length news = length (filter ok urls)"
    using mset_eq_length [OF m2] by simp
  show ?thesis
    using eq ms m2 len unfolding f_def ok_def by blast
qed

text \<open>Ten URLs of which two fail give eight records, under every schedule.\<close>

theorem detail_collector_ten_urls_two_failures:
  "\<forall>re sched props.
     length (detail_collector re
       \<lparr>listing_page = (\<lambda>page. LoadError),
        detail_page = (\<lambda>url. if url = ''u3'' \<or> url = ''u7'' then LoadError
                              else Loaded \<lparr>h1 = Some ''2 BHK Flat'', all_text = ''''\<rparr>),
        clock = (\<lambda>url. ''2026-11-03 10:00:00'')\<rparr>
       sched [''u1'', ''u2'', ''u3'', ''u4'', ''u5'', ''u6'', ''u7'', ''u8'', ''u9'', ''u10'']
       props) = length props + 8"
proof (intro allI)
  fix re sched props
  define w where "w =
      \<lparr>listing_page = (\<lambda>page :: int. LoadError :: string list fetched),
        detail_page = (\<lambda>url. if url = ''u3'' \<or> url = ''u7'' then LoadError
                              else Loaded \<lparr>h1 = Some ''2 BHK Flat'', all_text = ''''\<rparr>),
        clock = (\<lambda>url :: string. ''2026-11-03 10:00:00'')\<rparr>"
  define urls where
    "urls = [''u1'', ''u2'', ''u3'', ''u4'', ''u5'', ''u6'', ''u7'', ''u8'', ''u9'', ''u10'']"
  from detail_collector_one_record_per_success [of re w sched urls props]
  obtain news where eq: "detail_collector re w sched urls props = props @ news"
    and len: "length news = length (filter (\<lambda>url. detail_page w url \<noteq> NoDriver \<and>
                                           detail_page w url \<noteq> LoadError) urls)"
    by blast
  have "length (filter (\<lambda>url. detail_page w url \<noteq> NoDriver \<and>
                                           detail_page w url \<noteq> LoadError) urls) = 8"
    by (simp add: w_def urls_def)
  with eq len show "length (detail_collector re
       \<lparr>listing_page = (\<lambda>page. LoadError),
        detail_page = (\<lambda>url. if url = ''u3'' \<or> url = ''u7'' then LoadError
                              else Loaded \<lparr>h1 = Some ''2 BHK Flat'', all_text = ''''\<rparr>),
        clock = (\<lambda>url. ''2026-11-03 10:00:00'')\<rparr>
       sched [''u1'', ''u2'', ''u3'', ''u4'', ''u5'', ''u6'', ''u7'', ''u8'', ''u9'', ''u10'']
       props) = length props + 8"
    by (simp add: w_def urls_def)
qed



lemma columns_set_column:
  "columns (set_column c v df) = (if c \<in> set (columns df) then columns df else columns df @ [c])"
  by (simp add: set_column_def)

lemma columns_fill_columns:
  "set (columns (fill_columns cols df)) = set (columns df) \<union> set cols"
  by (induction cols arbitrary: df) (auto simp: columns_set_column)

lemma select_after_fill:
  "select_columns cols (fill_columns cols df) =
     Some \<lparr>columns = cols, rows = reindex cols (fill_columns cols df)\<rparr>"
  by (simp add: select_columns_def columns_fill_columns)

lemma save_to_csv_optimized_eq:
  "save_to_csv_optimized stamp self =
     self\<lparr>disk := (disk self)(filename_optimized stamp \<mapsto>
        to_csv \<lparr>columns = columns_optimized,
                rows = reindex columns_optimized
                  (fill_columns columns_optimized (DataFrame (properties self)))\<rparr>)\<rparr>"
  by (simp add: save_to_csv_optimized_def select_after_fill)

text \<open>
  C10 (the optimized scraper writes a new file), as amended. \<open>save_to_csv\<close> of the
  optimized scraper writes the table to \<open>dataset_optimized_<stamp>.csv\<close> and leaves
  the content of every other path, and the records, as they were.
\<close>

theorem save_to_csv_optimized_frame:
  "disk (save_to_csv_optimized stamp self) (filename_optimized stamp) =
     Some (to_csv \<lparr>columns = columns_optimized,
                rows = reindex columns_optimized
                  (fill_columns columns_optimized (DataFrame (properties self)))\<rparr>)
   \<and> (\<forall>p. p \<noteq> filename_optimized stamp \<longrightarrow>
          disk (save_to_csv_optimized stamp self) p = disk self p)
   \<and> properties (save_to_csv_optimized stamp self) = properties self"
  by (simp add: save_to_csv_optimized_eq)

theorem save_to_csv_optimized_frame_witness:
  "''data/data.csv'' \<noteq> filename_optimized ''20261103_100000''
   \<and> disk (save_to_csv_optimized ''20261103_100000''
        \<lparr>properties = [initial_details ''https://www.99acres.com/2-bhk-flat-spid-A1''
                         ''2026-11-03 10:00:00''],
         disk = [''data/data.csv'' \<mapsto> Garbage ''rows of an earlier run''],
         walked = []\<rparr>) ''data/data.csv''
     = Some (Garbage ''rows of an earlier run'')"
proof -
  have ne: "''data/data.csv'' \<noteq> filename_optimized ''20261103_100000''"
    by (simp add: filename_optimized_def)
  with save_to_csv_optimized_frame [of "''20261103_100000''"
      "\<lparr>properties = [initial_details ''https://www.99acres.com/2-bhk-flat-spid-A1''
                         ''2026-11-03 10:00:00''],
         disk = [''data/data.csv'' \<mapsto> Garbage ''rows of an earlier run''],
         walked = []\<rparr>"]
  show ?thesis by simp
qed

text \<open>
  The claim as stated fails for a file that already has the generated name, as
  after a save in the same second: it is overwritten.
\<close>

theorem save_to_csv_optimized_overwrites_same_name:
  "disk (save_to_csv_optimized ''20261103_100000''
      \<lparr>properties = [initial_details ''https://www.99acres.com/2-bhk-flat-spid-A1''
                       ''2026-11-03 10:00:00''],
       disk = [''dataset_optimized_20261103_100000.csv'' \<mapsto> Garbage ''earlier run''],
       walked = []\<rparr>) ''dataset_optimized_20261103_100000.csv''
   \<noteq> Some (Garbage ''earlier run'')"
  by (simp add: save_to_csv_optimized_eq filename_optimized_def to_csv_def)

section \<open>The fields of the written rows\<close>

lemma dict_get_zip_map:
  "dict_get (zip cols (map g cols)) c = (if c \<in> set cols then g c else NaN)"
  by (simp add: dict_get_def map_of_zip_map)

lemma dict_fromkeys_absorb:
  "set ys \<subseteq> set xs \<Longrightarrow> dict_fromkeys (dict_fromkeys xs @ ys) = dict_fromkeys xs"
proof -
  assume sub: "set ys \<subseteq> set xs"
  have d: "distinct (map (\<lambda>x. x) (dict_fromkeys xs))"
    using distinct_dict_fromkeys [of xs] by simp
  have 1: "keep_first (\<lambda>x. x) [] (dict_fromkeys xs) = dict_fromkeys xs"
    by (rule keep_first_id [OF d]) simp
  have 2: "keep_first (\<lambda>x. x) (map (\<lambda>x. x) (dict_fromkeys xs) @ []) ys = []"
    by (rule keep_first_all_seen) (use sub in \<open>simp add: set_dict_fromkeys\<close>)
  show ?thesis
    unfolding dict_fromkeys_def [of "dict_fromkeys xs @ ys"] keep_first_append 1 2 by simp
qed

lemma fill_columns_present:
  "set cols \<subseteq> set (columns df) \<Longrightarrow> fill_columns cols df = df"
  by (induction cols arbitrary: df) simp_all

lemma columns_DataFrame_details:
  assumes "props \<noteq> []" and "\<And>d. d \<in> set props \<Longrightarrow> map fst d = detail_keys"
  shows "columns (DataFrame props) = detail_keys"
proof -
  from assms(1) obtain d ds where p: "props = d # ds" by (cases props) auto
  have rest: "set (concat (map (map fst) ds)) \<subseteq> set detail_keys"
    using assms(2) by (auto simp: p)
  have dk: "dict_fromkeys detail_keys = detail_keys"
    unfolding dict_fromkeys_def by (rule keep_first_id) (simp_all add: detail_keys_def)
  have "dict_fromkeys (concat (map (map fst) props)) =
      dict_fromkeys (detail_keys @ concat (map (map fst) ds))"
    using assms(2) [of d] by (simp add: p)
  also have "\<dots> = detail_keys"
    using dict_fromkeys_absorb [OF rest [unfolded set_dict_fromkeys [of detail_keys, symmetric]]]
    by (simp add: dk)
  finally show ?thesis
    by (simp add: DataFrame_def Let_def)
qed

lemma save_to_csv_optimized_rows:
  assumes "\<And>d. d \<in> set (properties self) \<Longrightarrow> map fst d = detail_keys"
  shows "disk (save_to_csv_optimized stamp self) (filename_optimized stamp) =
     Some (Csv columns_optimized
       (map (\<lambda>d. map (\<lambda>c. render_cell (dict_get d c)) columns_optimized) (properties self)))"
proof (cases "properties self = []")
  case True
  have "rows (fill_columns cols \<lparr>columns = cs, rows = []\<rparr>) = []" for cols cs
    by (induction cols arbitrary: cs) (simp_all add: set_column_def)
  then show ?thesis
    by (simp add: save_to_csv_optimized_eq True DataFrame_def dict_fromkeys_def to_csv_def
        reindex_def)
next
  case False
  have c: "columns (DataFrame (properties self)) = detail_keys"
    using False assms by (rule columns_DataFrame_details)
  have sub: "set columns_optimized \<subseteq> set detail_keys"
    by (simp add: columns_optimized_def detail_keys_def)
  have f: "fill_columns columns_optimized (DataFrame (properties self)) =
      DataFrame (properties self)"
    by (rule fill_columns_present) (simp add: c sub)
  have r: "rows (DataFrame (properties self)) =
      map (\<lambda>d. map (dict_get d) detail_keys) (properties self)"
    using c by (simp add: DataFrame_def Let_def)
  have "row_get detail_keys (map (dict_get d) detail_keys) k = dict_get d k"
    if "k \<in> set columns_optimized" for d k
    using that sub by (auto simp: row_get_def dict_get_zip_map)
  then have "reindex columns_optimized (DataFrame (properties self)) =
      map (\<lambda>d. map (dict_get d) columns_optimized) (properties self)"
    by (simp add: reindex_def c r)
  then show ?thesis
    by (simp add: save_to_csv_optimized_eq f to_csv_def comp_def)
qed

text \<open>
  C8 (stable schema, sentinel for unknown fields). The claim fails for the rows of
  an earlier run: \<open>read_csv\<close> loads their \<open>N/A\<close> fields as missing values and
  \<open>to_csv\<close> writes a missing value as the empty field, so after the merge the old
  row holds empty fields where the new row holds \<open>N/A\<close>. The optimized scraper
  merges nothing: by \<open>save_to_csv_optimized_rows\<close> above it writes every record with
  its 21 fields as they are.
\<close>

theorem save_to_csv_rewrites_sentinel_as_empty:
  "snd (save_to_csv ''2026-11-03 10:00:00'' ''20261103_100000''
      [\<lparr>Property_Title = ''3 BHK Builder Floor'', Location = ''Dwarka'', Price = ''40,000'',
         Property_Type = ''N/A'', Area = ''N/A'', Bedrooms = ''N/A'', Furnishing = ''N/A'',
         Posted_By = ''N/A'', Rating = ''N/A''\<rparr>]
      ''data/data.csv''
      [''data/data.csv'' \<mapsto>
         Csv [''Property Title'', ''Location'', ''Price'', ''Property Type'', ''Area'',
              ''Bedrooms'', ''Furnishing'', ''Posted By'', ''Rating'', ''Scraped_Date'']
           [[''2 BHK Flat'', ''Rohini'', ''25,000'', ''N/A'', ''N/A'', ''N/A'', ''N/A'',
             ''N/A'', ''N/A'', ''2026-11-01 09:00:00'']]]) ''data/data.csv''
   = Some (Csv [''Property Title'', ''Location'', ''Price'', ''Property Type'', ''Area'',
                ''Bedrooms'', ''Furnishing'', ''Posted By'', ''Rating'', ''Scraped_Date'']
       [[''2 BHK Flat'', ''Rohini'', ''25,000'', '''', '''', '''', '''', '''', '''',
         ''2026-11-01 09:00:00''],
        [''3 BHK Builder Floor'', ''Dwarka'', ''40,000'', ''N/A'', ''N/A'', ''N/A'', ''N/A'',
         ''N/A'', ''N/A'', ''2026-11-03 10:00:00'']])"
  by code_simp

end
